theory Spec2Isabelle
  imports Main
begin

section \<open>Values and events of the ChatKit bridge\<close>

text \<open>
  The handlers of \<^verbatim>\<open>src/components/ChatKitPanel.tsx\<close> receive values typed
  \<^verbatim>\<open>unknown\<close> from the widget SDK. Such a value is one of the JavaScript values
  below. A number is only ever tested for not being a string, so its numeric value is
  kept as an integer. An object is the list of its own properties in insertion order.
  An instance of \<^verbatim>\<open>Error\<close> carries its \<^verbatim>\<open>name\<close> and its
  \<^verbatim>\<open>message\<close>.
\<close>

datatype jsval =
    JUndefined
  | JNull
  | JBool bool
  | JNum int
  | JStr string
  | JArr "jsval list"
  | JObj "(string \<times> jsval) list"
  | JError string string

text \<open>
  Property access \<^verbatim>\<open>obj.key\<close> on a \<^verbatim>\<open>Record<string, unknown>\<close>: the value of
  the property, \<^verbatim>\<open>undefined\<close> when the object has none of that name.
\<close>

definition get_prop :: "(string \<times> jsval) list \<Rightarrow> string \<Rightarrow> jsval" where
  "get_prop obj key = (case map_of obj key of None \<Rightarrow> JUndefined | Some v \<Rightarrow> v)"

text \<open>\<^verbatim>\<open>err instanceof Error\<close> and \<^verbatim>\<open>err.message\<close>.\<close>

fun instanceof_Error :: "jsval \<Rightarrow> bool" where
  "instanceof_Error (JError n m) = True"
| "instanceof_Error v = False"

fun message :: "jsval \<Rightarrow> string" where
  "message (JError n m) = m"
| "message v = []"

text \<open>
  \<^verbatim>\<open>action: { type: string; payload?: Record<string, unknown> }\<close> and
  \<^verbatim>\<open>widgetItem: { id: string; widget: Widgets.Card | Widgets.ListView }\<close>. The
  contents of a widget are never read by the bridge.
\<close>

record action =
  type :: string
  payload :: "(string \<times> jsval) list option"

datatype widget = Card | ListView

record widget_item =
  id' :: string
  widget :: widget

text \<open>\<^verbatim>\<open>invocation: { name: string; params: Record<string, unknown> }\<close> and the
  returned \<^verbatim>\<open>{ success: boolean }\<close>.\<close>

record invocation =
  name :: string
  params :: "(string \<times> jsval) list"

record tool_result =
  success :: bool

text \<open>
  The session handle returned by \<^verbatim>\<open>useChatKit\<close>. The bridge calls only its
  \<^verbatim>\<open>sendCustomAction\<close>, whose transport belongs to the SDK: the call either
  resolves (\<open>None\<close>) or rejects with a value (\<open>Some e\<close>).
\<close>

record chatkit =
  sendCustomAction :: "action \<Rightarrow> string \<Rightarrow> jsval option"

text \<open>
  Everything a handler does to the outside is recorded, in order, as an event: the
  console calls with their arguments, the call of the host page's callbacks
  \<^verbatim>\<open>onThemeRequest\<close> and \<^verbatim>\<open>onResponseEnd\<close>, and the outbound
  \<^verbatim>\<open>sendCustomAction\<close> with its two arguments. The host page's callbacks are
  typed \<^verbatim>\<open>(...) => void\<close>; in \<open>onClientTool\<close> and \<open>onResponseEnd\<close> below they
  return normally, and \<open>onClientTool_with\<close> covers a theme callback that throws.
\<close>

datatype event =
    ConsoleLog "jsval list"
  | ConsoleWarn "jsval list"
  | ConsoleError "jsval list"
  | ConsoleDebug "jsval list"
  | OnThemeRequest jsval
  | OnResponseEnd
  | SendCustomAction action string

text \<open>
  The state of one mounted \<^verbatim>\<open>ChatKitPanel\<close>: the ref
  \<^verbatim>\<open>chatkitRef.current\<close>, the React state \<^verbatim>\<open>error\<close>, and the events so far.
\<close>

record bridge =
  chatkitRef :: "chatkit option"
  error :: "string option"
  events :: "event list"

definition emit :: "event \<Rightarrow> bridge \<Rightarrow> bridge" where
  "emit e s = s\<lparr>events := events s @ [e]\<rparr>"

text \<open>A handler either returns a value or throws (an async handler: resolves or rejects).\<close>

datatype 'a outcome = Returned 'a | Thrown jsval

text \<open>The values the console is given for an action's payload and for an invocation.\<close>

definition payload_val :: "action \<Rightarrow> jsval" where
  "payload_val a = (case payload a of None \<Rightarrow> JUndefined | Some p \<Rightarrow> JObj p)"

definition invocation_val :: "invocation \<Rightarrow> jsval" where
  "invocation_val i = JObj [(''name'', JStr (name i)), (''params'', JObj (params i))]"

section \<open>The handlers\<close>

text \<open>The Action Router, \<^verbatim>\<open>handleWidgetAction\<close> (lines 34 to 57).\<close>

definition handleWidgetAction :: "action \<Rightarrow> widget_item \<Rightarrow> bridge \<Rightarrow> unit outcome \<times> bridge" where
  "handleWidgetAction act widgetItem s =
     (case chatkitRef s of
        None \<Rightarrow> (Returned (), emit (ConsoleWarn [JStr ''ChatKit not initialized'']) s)
      | Some ck \<Rightarrow>
          (let s1 = emit (ConsoleLog [JStr ''[ChatKitPanel] Widget action received:'',
                                      JStr (type act), payload_val act]) s
           in if type act = ''quiz.submit'' \<or> type act = ''quiz.reset'' then
                (let s2 = emit (ConsoleLog [JStr (''[ChatKitPanel] Sending '' @ type act
                                                  @ '' to server'')]) s1;
                     s3 = emit (SendCustomAction act (id' widgetItem)) s2
                 in case sendCustomAction ck act (id' widgetItem) of
                      None \<Rightarrow> (Returned (), s3)
                    | Some e \<Rightarrow> (Thrown e, s3))
              else (Returned (),
                    emit (ConsoleLog [JStr ''[ChatKitPanel] Unhandled action type:'',
                                      JStr (type act)]) s1)))"

text \<open>
  The Client-Tool Dispatcher, \<^verbatim>\<open>onClientTool\<close> (lines 86 to 104). The module
  constant \<^verbatim>\<open>isDev\<close> is fixed by the build mode and is a parameter here.
\<close>

definition onClientTool :: "bool \<Rightarrow> invocation \<Rightarrow> bridge \<Rightarrow> tool_result outcome \<times> bridge" where
  "onClientTool isDev invocation s =
     (let s1 = (if isDev
                then emit (ConsoleLog [JStr ''[ChatKitPanel] Client tool invocation:'',
                                       invocation_val invocation]) s
                else s)
      in if name invocation = ''switch_theme'' then
           (let requested = get_prop (params invocation) ''theme''
            in if requested = JStr ''light'' \<or> requested = JStr ''dark'' then
                 (Returned \<lparr>success = True\<rparr>, emit (OnThemeRequest requested) s1)
               else (Returned \<lparr>success = False\<rparr>, s1))
         else (Returned \<lparr>success = False\<rparr>, s1))"

text \<open>
  The same handler with the outcome of the host's callback made explicit. The prop
  \<^verbatim>\<open>onThemeRequest\<close> is any function the host page passes: called with a value it
  either returns (\<open>None\<close>) or throws (\<open>Some e\<close>). The call at line 97 stands in no
  \<^verbatim>\<open>try\<close>, so what the callback throws leaves the handler, and the
  \<^verbatim>\<open>return\<close> of line 98 is not reached. Nothing else in the body can throw:
  \<^verbatim>\<open>params\<close> is an object by the invocation's type, and reading a property an
  object does not have gives \<^verbatim>\<open>undefined\<close>. The definition \<open>onClientTool\<close> above
  is this handler for a callback that returns.
\<close>

definition onClientTool_with ::
    "(jsval \<Rightarrow> jsval option) \<Rightarrow> bool \<Rightarrow> invocation \<Rightarrow> bridge \<Rightarrow> tool_result outcome \<times> bridge" where
  "onClientTool_with onThemeRequest isDev invocation s =
     (let s1 = (if isDev
                then emit (ConsoleLog [JStr ''[ChatKitPanel] Client tool invocation:'',
                                       invocation_val invocation]) s
                else s)
      in if name invocation = ''switch_theme'' then
           (let requested = get_prop (params invocation) ''theme''
            in if requested = JStr ''light'' \<or> requested = JStr ''dark'' then
                 (let s2 = emit (OnThemeRequest requested) s1
                  in case onThemeRequest requested of
                       None \<Rightarrow> (Returned \<lparr>success = True\<rparr>, s2)
                     | Some e \<Rightarrow> (Thrown e, s2))
               else (Returned \<lparr>success = False\<rparr>, s1))
         else (Returned \<lparr>success = False\<rparr>, s1))"

text \<open>\<^verbatim>\<open>onResponseEnd\<close>, \<^verbatim>\<open>onError\<close> and \<^verbatim>\<open>onLog\<close> (lines 105 to 118).\<close>

definition onResponseEnd :: "bridge \<Rightarrow> bridge" where
  "onResponseEnd s = emit OnResponseEnd s"

definition onError :: "jsval \<Rightarrow> bridge \<Rightarrow> bridge" where
  "onError err s =
     (let s1 = emit (ConsoleError [JStr ''[ChatKitPanel] Error:'', err]) s
      in if instanceof_Error err then s1\<lparr>error := Some (message err)\<rparr> else s1)"

definition onLog :: "bool \<Rightarrow> string \<Rightarrow> (string \<times> jsval) list option \<Rightarrow> bridge \<Rightarrow> bridge" where
  "onLog isDev nm data s =
     (if isDev
      then emit (ConsoleDebug [JStr ''[chatkit]'', JStr nm,
                               JObj (case data of None \<Rightarrow> [] | Some d \<Rightarrow> d)]) s
      else s)"

section \<open>Rendering and the event loop\<close>

text \<open>
  The props the component's render hands to \<^verbatim>\<open>ErrorOverlay\<close> (lines 130 to 135):
  the \<^verbatim>\<open>error\<close> state, \<^verbatim>\<open>fallbackMessage={null}\<close>,
  \<^verbatim>\<open>onRetry={null}\<close> and \<^verbatim>\<open>retryLabel="Restart chat"\<close>. A retry callback
  would act on the state of the page.
\<close>

record overlay_props =
  err :: "string option"
  fallbackMessage :: "string option"
  onRetry :: "(bridge \<Rightarrow> bridge) option"
  retryLabel :: string

definition ChatKitPanel_overlay :: "bridge \<Rightarrow> overlay_props" where
  "ChatKitPanel_overlay s =
     \<lparr>err = error s, fallbackMessage = None, onRetry = None, retryLabel = ''Restart chat''\<rparr>"

text \<open>
  Modelled from the spec: the component \<^verbatim>\<open>ErrorOverlay\<close>
  (\<^verbatim>\<open>src/components/ErrorOverlay.tsx\<close>, imported at line 14) is not among the
  sources. The specification of the Error Surface says: it renders nothing when
  \<^verbatim>\<open>error\<close> is null; when \<^verbatim>\<open>error\<close> is non-null it renders the error text;
  when \<^verbatim>\<open>onRetry\<close> is non-null it renders a control labelled
  \<^verbatim>\<open>retryLabel\<close>. What is rendered is the text shown and the label of the retry
  control, if there is one.
\<close>

record overlay_view =
  shown_text :: string
  retry_control :: "string option"

definition ErrorOverlay :: "overlay_props \<Rightarrow> overlay_view option" where
  "ErrorOverlay p =
     (case err p of
        None \<Rightarrow> None
      | Some e \<Rightarrow>
          Some \<lparr>shown_text = e,
                retry_control = (case onRetry p of None \<Rightarrow> None | Some f \<Rightarrow> Some (retryLabel p))\<rparr>)"

text \<open>
  A render of the component stores the handle that \<^verbatim>\<open>useChatKit\<close> returned in the
  ref (line 122).
\<close>

definition render :: "chatkit \<Rightarrow> bridge \<Rightarrow> bridge" where
  "render ck s = s\<lparr>chatkitRef := Some ck\<rparr>"

text \<open>
  What can happen to a mounted bridge: a render, or one of the five events the SDK
  delivers to the handlers registered at lines 83 to 118. A handler that throws leaves
  the state it had reached.
\<close>

datatype sdk_event =
    Render chatkit
  | WidgetAction action widget_item
  | ClientTool invocation
  | ResponseEnd
  | ErrorEvent jsval
  | LogEvent string "(string \<times> jsval) list option"

fun step :: "bool \<Rightarrow> sdk_event \<Rightarrow> bridge \<Rightarrow> bridge" where
  "step isDev (Render ck) s = render ck s"
| "step isDev (WidgetAction a w) s = snd (handleWidgetAction a w s)"
| "step isDev (ClientTool i) s = snd (onClientTool isDev i s)"
| "step isDev ResponseEnd s = onResponseEnd s"
| "step isDev (ErrorEvent e) s = onError e s"
| "step isDev (LogEvent n d) s = onLog isDev n d s"

fun run :: "bool \<Rightarrow> sdk_event list \<Rightarrow> bridge \<Rightarrow> bridge" where
  "run isDev [] s = s"
| "run isDev (e # es) s = run isDev es (step isDev e s)"

text \<open>
  The state before the first render, and two session handles: one whose
  \<^verbatim>\<open>sendCustomAction\<close> always resolves, one whose call always rejects.
\<close>

definition unmounted :: bridge where
  "unmounted = \<lparr>chatkitRef = None, error = None, events = []\<rparr>"

definition resolves :: "action \<Rightarrow> string \<Rightarrow> jsval option" where
  "resolves a i = None"

definition rejects :: "action \<Rightarrow> string \<Rightarrow> jsval option" where
  "rejects a i = Some (JError ''TypeError'' ''Failed to fetch'')"

definition ready :: bridge where
  "ready = \<lparr>chatkitRef = Some \<lparr>sendCustomAction = resolves\<rparr>, error = None, events = []\<rparr>"



section \<open>Reading the events\<close>

text \<open>The arguments of the theme callback's calls, and of the forwarding calls, in order.\<close>

fun themeCalls :: "event list \<Rightarrow> jsval list" where
  "themeCalls [] = []"
| "themeCalls (OnThemeRequest v # es) = v # themeCalls es"
| "themeCalls (e # es) = themeCalls es"

fun forwards :: "event list \<Rightarrow> (action \<times> string) list" where
  "forwards [] = []"
| "forwards (SendCustomAction a i # es) = (a, i) # forwards es"
| "forwards (e # es) = forwards es"

lemma themeCalls_append: "themeCalls (xs @ ys) = themeCalls xs @ themeCalls ys"
  by (induction xs rule: themeCalls.induct) simp_all

lemma forwards_append: "forwards (xs @ ys) = forwards xs @ forwards ys"
  by (induction xs rule: forwards.induct) simp_all


text \<open>What a handler leaves alone: emitting an event changes neither the ref nor the error.\<close>

lemma emit_fields:
  "chatkitRef (emit e s) = chatkitRef s"
  "error (emit e s) = error s"
  "events (emit e s) = events s @ [e]"
  by (simp_all add: emit_def)

lemma handleWidgetAction_error: "error (snd (handleWidgetAction a w s)) = error s"
  by (simp add: handleWidgetAction_def emit_fields Let_def split: option.splits)

lemma onClientTool_error: "error (snd (onClientTool isDev i s)) = error s"
  by (simp add: onClientTool_def emit_fields Let_def)

lemma onError_error_set: "error s \<noteq> None \<Longrightarrow> error (onError e s) \<noteq> None"
  by (simp add: onError_def emit_fields Let_def)

lemma step_error_set: "error s \<noteq> None \<Longrightarrow> error (step isDev ev s) \<noteq> None"
  by (cases ev)
     (simp_all add: render_def handleWidgetAction_error onClientTool_error onResponseEnd_def
        onError_error_set onLog_def emit_fields)

text \<open>
  The two definitions of the dispatcher agree: on the state always, and on the outcome
  when the callback returns on the two values it can be called with.
\<close>

lemma onClientTool_with_state:
  "snd (onClientTool_with cb isDev i s) = snd (onClientTool isDev i s)"
  by (simp add: onClientTool_with_def onClientTool_def Let_def split: option.splits)

lemma onClientTool_with_returning:
  "cb (JStr ''light'') = None \<Longrightarrow> cb (JStr ''dark'') = None
   \<Longrightarrow> onClientTool_with cb isDev i s = onClientTool isDev i s"
  by (auto simp: onClientTool_with_def onClientTool_def Let_def)

section \<open>The Client-Tool Dispatcher\<close>

text \<open>
  C1. For a tool invocation named \<^verbatim>\<open>switch_theme\<close> whose \<^verbatim>\<open>params.theme\<close> is
  exactly the string \<^verbatim>\<open>light\<close> or exactly the string \<^verbatim>\<open>dark\<close>, the dispatcher
  returns \<^verbatim>\<open>{success: true}\<close> and calls the theme callback exactly once, with that
  value: the calls of the callback after the handler are those before it followed by
  this one.
\<close>

theorem onClientTool_switch_theme:
  assumes "name invocation = ''switch_theme''"
    and "get_prop (params invocation) ''theme'' = JStr t"
    and "t = ''light'' \<or> t = ''dark''"
  shows "fst (onClientTool isDev invocation s) = Returned \<lparr>success = True\<rparr>
       \<and> themeCalls (events (snd (onClientTool isDev invocation s)))
           = themeCalls (events s) @ [JStr t]"
  using assms by (auto simp: onClientTool_def emit_fields themeCalls_append Let_def)

theorem onClientTool_switch_theme_witness:
  "fst (onClientTool True \<lparr>name = ''switch_theme'', params = [(''theme'', JStr ''dark'')]\<rparr>
         unmounted) = Returned \<lparr>success = True\<rparr>
   \<and> themeCalls (events (snd (onClientTool True
         \<lparr>name = ''switch_theme'', params = [(''theme'', JStr ''dark'')]\<rparr> unmounted)))
       = [JStr ''dark'']"
  using onClientTool_switch_theme
    [of "\<lparr>name = ''switch_theme'', params = [(''theme'', JStr ''dark'')]\<rparr>" "''dark''"
        True unmounted]
  by (simp add: get_prop_def unmounted_def)

text \<open>
  C2. For every other tool invocation (another tool name, or \<^verbatim>\<open>switch_theme\<close> with
  a \<^verbatim>\<open>params.theme\<close> that is missing, not a string, the empty string or any string
  other than \<^verbatim>\<open>light\<close> and \<^verbatim>\<open>dark\<close>) the dispatcher returns
  \<^verbatim>\<open>{success: false}\<close>, which is a normal return and not a throw, and the theme
  callback is not called.
\<close>

theorem onClientTool_declines:
  assumes "\<not> (name invocation = ''switch_theme''
             \<and> (get_prop (params invocation) ''theme'' = JStr ''light''
                \<or> get_prop (params invocation) ''theme'' = JStr ''dark''))"
  shows "fst (onClientTool isDev invocation s) = Returned \<lparr>success = False\<rparr>
       \<and> themeCalls (events (snd (onClientTool isDev invocation s))) = themeCalls (events s)"
  using assms by (auto simp: onClientTool_def emit_fields themeCalls_append Let_def)

theorem onClientTool_declines_witness:
  "fst (onClientTool True \<lparr>name = ''switch_theme'', params = [(''theme'', JStr ''blue'')]\<rparr>
         unmounted) = Returned \<lparr>success = False\<rparr>
   \<and> themeCalls (events (snd (onClientTool True
         \<lparr>name = ''switch_theme'', params = [(''theme'', JStr ''blue'')]\<rparr> unmounted))) = []"
  using onClientTool_declines
    [of "\<lparr>name = ''switch_theme'', params = [(''theme'', JStr ''blue'')]\<rparr>" True unmounted]
  by (simp add: get_prop_def unmounted_def)




text \<open>
  C9. The development-mode logging has no effect on behaviour: for every invocation
  and state, the run with \<^verbatim>\<open>isDev\<close> true and the run with it false return the same
  result, make the same calls of the theme callback, and leave the same error state and
  session ref.
\<close>

theorem onClientTool_isDev_equivalence:
  "fst (onClientTool True invocation s) = fst (onClientTool False invocation s)
   \<and> themeCalls (events (snd (onClientTool True invocation s)))
       = themeCalls (events (snd (onClientTool False invocation s)))
   \<and> error (snd (onClientTool True invocation s)) = error (snd (onClientTool False invocation s))
   \<and> chatkitRef (snd (onClientTool True invocation s))
       = chatkitRef (snd (onClientTool False invocation s))"
  by (simp add: onClientTool_def emit_fields themeCalls_append Let_def)

section \<open>The Action Router\<close>

text \<open>
  C3. With an initialised session handle, an action of type \<^verbatim>\<open>quiz.submit\<close> or
  \<^verbatim>\<open>quiz.reset\<close> causes exactly one \<^verbatim>\<open>sendCustomAction\<close> call, whose
  arguments are the action and the widget item's id as they were received; the handler
  resolves or rejects as that call does.
\<close>

theorem handleWidgetAction_forwards:
  assumes "chatkitRef s = Some ck"
    and "type act = ''quiz.submit'' \<or> type act = ''quiz.reset''"
  shows "forwards (events (snd (handleWidgetAction act w s)))
           = forwards (events s) @ [(act, id' w)]
       \<and> fst (handleWidgetAction act w s)
           = (case sendCustomAction ck act (id' w) of
                None \<Rightarrow> Returned () | Some e \<Rightarrow> Thrown e)"
  using assms
  by (auto simp: handleWidgetAction_def emit_fields forwards_append Let_def
           split: option.splits)

theorem handleWidgetAction_forwards_witness:
  "forwards (events (snd (handleWidgetAction
       \<lparr>type = ''quiz.submit'', payload = Some [(''answers'', JArr [JNum 1, JNum 2, JNum 3])]\<rparr>
       \<lparr>id' = ''w1'', widget = Card\<rparr> ready)))
     = [(\<lparr>type = ''quiz.submit'', payload = Some [(''answers'', JArr [JNum 1, JNum 2, JNum 3])]\<rparr>,
         ''w1'')]
   \<and> fst (handleWidgetAction
       \<lparr>type = ''quiz.submit'', payload = Some [(''answers'', JArr [JNum 1, JNum 2, JNum 3])]\<rparr>
       \<lparr>id' = ''w1'', widget = Card\<rparr> ready) = Returned ()"
  using handleWidgetAction_forwards
    [of ready "\<lparr>sendCustomAction = resolves\<rparr>"
        "\<lparr>type = ''quiz.submit'', payload = Some [(''answers'', JArr [JNum 1, JNum 2, JNum 3])]\<rparr>"
        "\<lparr>id' = ''w1'', widget = Card\<rparr>"]
  by (simp add: ready_def resolves_def)

text \<open>
  C4. An action whose type is neither \<^verbatim>\<open>quiz.submit\<close> nor \<^verbatim>\<open>quiz.reset\<close>
  causes no forwarding call and the handler returns normally, in every state. Under the
  router's precondition, an initialised session handle, the console receives the entry
  \<^verbatim>\<open>[ChatKitPanel] Unhandled action type:\<close> with the action's type, after the
  entry that reports the action as received, and nothing else.
\<close>

theorem handleWidgetAction_unhandled:
  assumes "type act \<noteq> ''quiz.submit''" and "type act \<noteq> ''quiz.reset''"
  shows "fst (handleWidgetAction act w s) = Returned ()
       \<and> forwards (events (snd (handleWidgetAction act w s))) = forwards (events s)
       \<and> (chatkitRef s \<noteq> None \<longrightarrow>
            events (snd (handleWidgetAction act w s))
              = events s @ [ConsoleLog [JStr ''[ChatKitPanel] Widget action received:'',
                                        JStr (type act), payload_val act],
                            ConsoleLog [JStr ''[ChatKitPanel] Unhandled action type:'',
                                        JStr (type act)]])"
  using assms
  by (auto simp: handleWidgetAction_def emit_fields forwards_append Let_def
           split: option.splits)

theorem handleWidgetAction_unhandled_witness:
  "fst (handleWidgetAction \<lparr>type = ''quiz.unknown'', payload = None\<rparr>
          \<lparr>id' = ''w1'', widget = Card\<rparr> ready) = Returned ()
   \<and> forwards (events (snd (handleWidgetAction \<lparr>type = ''quiz.unknown'', payload = None\<rparr>
          \<lparr>id' = ''w1'', widget = Card\<rparr> ready))) = []
   \<and> events (snd (handleWidgetAction \<lparr>type = ''quiz.unknown'', payload = None\<rparr>
          \<lparr>id' = ''w1'', widget = Card\<rparr> ready))
       = [ConsoleLog [JStr ''[ChatKitPanel] Widget action received:'',
                      JStr ''quiz.unknown'', JUndefined],
          ConsoleLog [JStr ''[ChatKitPanel] Unhandled action type:'', JStr ''quiz.unknown'']]"
  using handleWidgetAction_unhandled
    [of "\<lparr>type = ''quiz.unknown'', payload = None\<rparr>" "\<lparr>id' = ''w1'', widget = Card\<rparr>" ready]
  by (simp add: ready_def payload_val_def)

text \<open>
  C7. While the session handle is not initialised, an action of any type (whitelisted
  or not) makes the router log the warning \<^verbatim>\<open>ChatKit not initialized\<close> and return
  normally: that warning is the only event, nothing is forwarded, and the error state and
  the ref are as before.
\<close>

theorem handleWidgetAction_uninitialized:
  assumes "chatkitRef s = None"
  shows "fst (handleWidgetAction act w s) = Returned ()
       \<and> events (snd (handleWidgetAction act w s))
           = events s @ [ConsoleWarn [JStr ''ChatKit not initialized'']]
       \<and> forwards (events (snd (handleWidgetAction act w s))) = forwards (events s)
       \<and> error (snd (handleWidgetAction act w s)) = error s
       \<and> chatkitRef (snd (handleWidgetAction act w s)) = None"
  using assms
  by (simp add: handleWidgetAction_def emit_fields forwards_append)

theorem handleWidgetAction_uninitialized_witness:
  "fst (handleWidgetAction \<lparr>type = ''quiz.submit'', payload = None\<rparr>
          \<lparr>id' = ''w1'', widget = ListView\<rparr> unmounted) = Returned ()
   \<and> events (snd (handleWidgetAction \<lparr>type = ''quiz.submit'', payload = None\<rparr>
          \<lparr>id' = ''w1'', widget = ListView\<rparr> unmounted))
       = [ConsoleWarn [JStr ''ChatKit not initialized'']]
   \<and> forwards (events (snd (handleWidgetAction \<lparr>type = ''quiz.submit'', payload = None\<rparr>
          \<lparr>id' = ''w1'', widget = ListView\<rparr> unmounted))) = []"
  using handleWidgetAction_uninitialized
    [of unmounted "\<lparr>type = ''quiz.submit'', payload = None\<rparr>" "\<lparr>id' = ''w1'', widget = ListView\<rparr>"]
  by (simp add: unmounted_def)

section \<open>The error state and the Error Surface\<close>

text \<open>
  C5, as stated, for every inbound error event while the session is ready: the error
  string is stored. The SDK's event carries a payload typed \<^verbatim>\<open>unknown\<close>, and
  \<^verbatim>\<open>onError\<close> stores a message only behind \<^verbatim>\<open>err instanceof Error\<close>: an event
  whose payload is the plain string \<^verbatim>\<open>network down\<close>, received in a ready
  session, leaves the error state null.
\<close>

theorem onError_plain_string_not_stored:
  "chatkitRef ready \<noteq> None \<and> error (onError (JStr ''network down'') ready) = None"
  by (simp add: onError_def ready_def emit_def)

text \<open>
  C5, amended: for every inbound error event whose payload is an instance of
  \<^verbatim>\<open>Error\<close>, received while the session is ready, the bridge stores the error's
  message in the error state, the Error Surface shows exactly that message (with no
  retry control), and the session is not torn down: the session ref still holds the same
  handle and the only event is the console entry.
\<close>

theorem onError_shows_message:
  assumes "chatkitRef s = Some ck"
  shows "error (onError (JError n m) s) = Some m
       \<and> ErrorOverlay (ChatKitPanel_overlay (onError (JError n m) s))
           = Some \<lparr>shown_text = m, retry_control = None\<rparr>
       \<and> chatkitRef (onError (JError n m) s) = Some ck
       \<and> events (onError (JError n m) s)
           = events s @ [ConsoleError [JStr ''[ChatKitPanel] Error:'', JError n m]]"
  using assms
  by (simp add: onError_def emit_fields ErrorOverlay_def ChatKitPanel_overlay_def Let_def)

theorem onError_shows_message_witness:
  "error (onError (JError ''TypeError'' ''Failed to fetch'') ready) = Some ''Failed to fetch''
   \<and> ErrorOverlay (ChatKitPanel_overlay (onError (JError ''TypeError'' ''Failed to fetch'') ready))
       = Some \<lparr>shown_text = ''Failed to fetch'', retry_control = None\<rparr>
   \<and> chatkitRef (onError (JError ''TypeError'' ''Failed to fetch'') ready)
       = Some \<lparr>sendCustomAction = resolves\<rparr>"
  using onError_shows_message
    [of ready "\<lparr>sendCustomAction = resolves\<rparr>" "''TypeError''" "''Failed to fetch''"]
  by (simp add: ready_def)

text \<open>
  C8. Once the error state holds a string, no render and no handler of the bridge sets
  it back to null: after any sequence of renders and SDK events, in either build mode,
  it still holds a string. The retry callback the bridge passes to the Error Surface is
  null in every state, so the bridge offers no clearing transition either.
\<close>

theorem error_never_cleared:
  assumes "error s \<noteq> None"
  shows "error (run isDev evs s) \<noteq> None \<and> onRetry (ChatKitPanel_overlay (run isDev evs s)) = None"
proof -
  have "error (run isDev evs s) \<noteq> None"
    using assms
  proof (induction evs arbitrary: s)
    case Nil
    then show ?case by simp
  next
    case (Cons ev evs)
    from Cons.prems have "error (step isDev ev s) \<noteq> None"
      by (rule step_error_set)
    then show ?case
      using Cons.IH by simp
  qed
  then show ?thesis
    by (simp add: ChatKitPanel_overlay_def)
qed

theorem error_never_cleared_witness:
  "error (run True
            [ErrorEvent (JStr ''network down''),
             ClientTool \<lparr>name = ''switch_theme'', params = [(''theme'', JStr ''light'')]\<rparr>,
             WidgetAction \<lparr>type = ''quiz.reset'', payload = None\<rparr> \<lparr>id' = ''w1'', widget = Card\<rparr>,
             ResponseEnd,
             LogEvent ''thread.change'' None,
             Render \<lparr>sendCustomAction = rejects\<rparr>]
            (onError (JError ''Error'' ''boom'') ready)) \<noteq> None"
proof -
  have "error (onError (JError ''Error'' ''boom'') ready) \<noteq> None"
    by (simp add: onError_def emit_fields)
  from error_never_cleared [OF this] show ?thesis
    by blast
qed

text \<open>
  C10. When the payload of an error event is not an instance of \<^verbatim>\<open>Error\<close> (a plain
  string, an object, \<^verbatim>\<open>undefined\<close>, ...), \<^verbatim>\<open>onError\<close> leaves the error state as
  it was, so what the Error Surface is given is unchanged, and the payload goes to
  \<^verbatim>\<open>console.error\<close>. When the payload is an instance of \<^verbatim>\<open>Error\<close>, what is
  stored is its \<^verbatim>\<open>message\<close>.
\<close>

theorem onError_frame:
  "(\<not> instanceof_Error e \<longrightarrow>
      error (onError e s) = error s
    \<and> ChatKitPanel_overlay (onError e s) = ChatKitPanel_overlay s
    \<and> events (onError e s) = events s @ [ConsoleError [JStr ''[ChatKitPanel] Error:'', e]])
   \<and> error (onError (JError n m) s) = Some m"
  by (simp add: onError_def emit_fields ChatKitPanel_overlay_def Let_def)

theorem onError_frame_witness:
  "error (onError (JObj [(''code'', JNum 503)]) (onError (JError ''Error'' ''boom'') ready))
     = Some ''boom''
   \<and> events (onError (JObj [(''code'', JNum 503)]) ready)
       = [ConsoleError [JStr ''[ChatKitPanel] Error:'', JObj [(''code'', JNum 503)]]]
   \<and> error (onError (JError ''RangeError'' ''too big'') ready) = Some ''too big''"
proof -
  have obj: "\<not> instanceof_Error (JObj [(''code'', JNum 503)])"
    by simp
  have stored: "error (onError (JError ''Error'' ''boom'') ready) = Some ''boom''"
    by (simp add: onError_def emit_fields)
  show ?thesis
    using obj stored
      onError_frame [of "JObj [(''code'', JNum 503)]" "onError (JError ''Error'' ''boom'') ready"
                        "''RangeError''" "''too big''"]
      onError_frame [of "JObj [(''code'', JNum 503)]" ready "''RangeError''" "''too big''"]
    by (simp add: ready_def)
qed

end
